theory Spec2Isabelle
  imports Main "HOL-Library.AList"
begin

section \<open>JavaScript values and the heap\<close>

text \<open>
  The module \<open>nothing.js\<close> works on arbitrary JavaScript values. Objects and arrays have an
  identity and are mutated in place, and the module keeps two of them for its whole lifetime
  (the entries \<open>"object"\<close> and \<open>"array"\<close> of the table \<open>NOTHING\<close>), so they live in an
  explicit heap and values refer to them by address.

  Finite numbers are integers here: the module only tests numbers for truthiness and for
  strict equality, and does arithmetic only on the depth budget. \<open>VNaN\<close> is the
  not-a-number value. Every property is an enumerable data property. An object either has no
  prototype (\<open>Object.create(null)\<close>) or inherits from \<open>Object.prototype\<close>, whose members are
  then visible to a read of a key the object does not own. Writing the key \<open>__proto__\<close> of an
  object that inherits from \<open>Object.prototype\<close> (which calls a setter in JavaScript) is not
  modelled: the key is stored like any other.
\<close>

type_synonym addr = nat

datatype fn = NoOp | ProtoFn string | UserFn nat

datatype val =
    VUndefined
  | VNull
  | VBool bool
  | VNum int
  | VNaN
  | VStr string
  | VFun fn
  | VRef addr

datatype proto = NullProto | ObjectProto

datatype cell = Obj proto "(string \<times> val) list" | Arr "val list"

type_synonym heap = "cell list"

datatype error = TypeError string

type_synonym 'a outcome = "heap \<times> (error + 'a)"

definition cell_at :: "heap \<Rightarrow> addr \<Rightarrow> cell option" where
  "cell_at h a = (if a < length h then Some (h ! a) else None)"

text \<open>\<open>typeof v\<close>, the truthiness of \<open>v\<close> (as tested by \<open>||\<close>) and \<open>a === b\<close>.\<close>

fun typeof :: "val \<Rightarrow> string" where
  "typeof VUndefined = ''undefined''"
| "typeof VNull = ''object''"
| "typeof (VBool b) = ''boolean''"
| "typeof (VNum n) = ''number''"
| "typeof VNaN = ''number''"
| "typeof (VStr s) = ''string''"
| "typeof (VFun f) = ''function''"
| "typeof (VRef a) = ''object''"

fun truthy :: "val \<Rightarrow> bool" where
  "truthy VUndefined = False"
| "truthy VNull = False"
| "truthy (VBool b) = b"
| "truthy (VNum n) = (n \<noteq> 0)"
| "truthy VNaN = False"
| "truthy (VStr s) = (s \<noteq> [])"
| "truthy (VFun f) = True"
| "truthy (VRef a) = True"

definition strict_eq :: "val \<Rightarrow> val \<Rightarrow> bool" where
  "strict_eq a b = (a = b \<and> a \<noteq> VNaN)"

text \<open>\<open>Array.isArray(v)\<close> and \<open>v.length\<close> of an array.\<close>

definition is_array :: "heap \<Rightarrow> val \<Rightarrow> bool" where
  "is_array h v =
     (case v of
        VRef a \<Rightarrow> (case cell_at h a of Some (Arr xs) \<Rightarrow> True | _ \<Rightarrow> False)
      | _ \<Rightarrow> False)"

definition array_length :: "heap \<Rightarrow> val \<Rightarrow> nat" where
  "array_length h v =
     (case v of
        VRef a \<Rightarrow> (case cell_at h a of Some (Arr xs) \<Rightarrow> length xs | _ \<Rightarrow> 0)
      | _ \<Rightarrow> 0)"

text \<open>
  The own properties of an object, in the order they were created. \<open>Object.keys\<close> and
  \<open>for ... in\<close> enumerate the keys that are array indices first, in ascending numeric order,
  and then the other keys in creation order.
\<close>

definition own_props :: "heap \<Rightarrow> val \<Rightarrow> (string \<times> val) list" where
  "own_props h v =
     (case v of
        VRef a \<Rightarrow> (case cell_at h a of Some (Obj p ps) \<Rightarrow> ps | _ \<Rightarrow> [])
      | _ \<Rightarrow> [])"

definition digit_val :: "char \<Rightarrow> int" where
  "digit_val c = of_char c - 48"

definition index_val :: "string \<Rightarrow> int" where
  "index_val s = foldl (\<lambda>n c. 10 * n + digit_val c) 0 s"

definition is_index_key :: "string \<Rightarrow> bool" where
  "is_index_key s =
     (s \<noteq> [] \<and> (\<forall>c \<in> set s. 48 \<le> (of_char c :: int) \<and> (of_char c :: int) \<le> 57)
      \<and> (hd s = CHR ''0'' \<longrightarrow> s = ''0'') \<and> index_val s < 4294967295)"

definition key_order :: "string list \<Rightarrow> string list" where
  "key_order ks =
     sort_key index_val (filter is_index_key ks) @ filter (\<lambda>k. \<not> is_index_key k) ks"

definition object_keys :: "heap \<Rightarrow> val \<Rightarrow> string list" where
  "object_keys h v = key_order (map fst (own_props h v))"

text \<open>\<open>Object.prototype.hasOwnProperty.call(v, k)\<close>.\<close>

definition has_own :: "heap \<Rightarrow> val \<Rightarrow> string \<Rightarrow> bool" where
  "has_own h v k = (map_of (own_props h v) k \<noteq> None)"

text \<open>
  \<open>Object.prototype\<close> itself is the object at address 2 of every heap the module runs in.
  \<open>proto_member k\<close> is what a read of the key \<open>k\<close> finds on it.
\<close>

definition proto_addr :: addr where
  "proto_addr = 2"

definition proto_member :: "string \<Rightarrow> val" where
  "proto_member k =
     (if k = ''__proto__'' then VRef proto_addr
      else if k \<in> set [''constructor'', ''toString'', ''toLocaleString'', ''valueOf'',
                        ''hasOwnProperty'', ''isPrototypeOf'', ''propertyIsEnumerable'',
                        ''__defineGetter__'', ''__defineSetter__'',
                        ''__lookupGetter__'', ''__lookupSetter__'']
      then VFun (ProtoFn k)
      else VUndefined)"

text \<open>The read \<open>v[k]\<close>, the write \<open>v[k] = x\<close> and \<open>delete v[k]\<close> on a keyed container.\<close>

definition prop_get :: "heap \<Rightarrow> val \<Rightarrow> string \<Rightarrow> val" where
  "prop_get h v k =
     (case v of
        VRef a \<Rightarrow>
          (case cell_at h a of
             Some (Obj p ps) \<Rightarrow>
               (case map_of ps k of
                  Some x \<Rightarrow> x
                | None \<Rightarrow> (case p of NullProto \<Rightarrow> VUndefined | ObjectProto \<Rightarrow> proto_member k))
           | _ \<Rightarrow> VUndefined)
      | _ \<Rightarrow> VUndefined)"

definition prop_set :: "heap \<Rightarrow> val \<Rightarrow> string \<Rightarrow> val \<Rightarrow> heap" where
  "prop_set h v k x =
     (case v of
        VRef a \<Rightarrow>
          (case cell_at h a of
             Some (Obj p ps) \<Rightarrow> h[a := Obj p (AList.update k x ps)]
           | _ \<Rightarrow> h)
      | _ \<Rightarrow> h)"

definition prop_delete :: "heap \<Rightarrow> val \<Rightarrow> string \<Rightarrow> heap" where
  "prop_delete h v k =
     (case v of
        VRef a \<Rightarrow>
          (case cell_at h a of
             Some (Obj p ps) \<Rightarrow> h[a := Obj p (AList.delete k ps)]
           | _ \<Rightarrow> h)
      | _ \<Rightarrow> h)"

text \<open>The object literal \<open>{}\<close>: a fresh empty object that inherits from \<open>Object.prototype\<close>.\<close>

definition alloc_empty :: "heap \<Rightarrow> heap \<times> val" where
  "alloc_empty h = (h @ [Obj ObjectProto []], VRef (length h))"


section \<open>The helper module \<open>typec.js\<close>\<close>

text \<open>
  Modelled from the spec: \<open>typec.js\<close> is imported by \<open>nothing.js\<close> and is not part of the
  sources. \<open>typec.is_null(v)\<close> tells whether \<open>v\<close> is an absence-marker, which covers null,
  undefined and the not-a-number value (the comment on \<open>normalize\<close> in \<open>nothing.js\<close> says the
  same).
\<close>

definition is_null :: "val \<Rightarrow> bool" where
  "is_null v = (v = VNull \<or> v = VUndefined \<or> v = VNaN)"

text \<open>
  Modelled from the spec: \<open>typec.type_check(v, "object")\<close> tells whether \<open>v\<close> is a keyed
  container, that is an object that is neither null nor an ordered sequence, and
  \<open>typec.type_check(v, "string")\<close> whether \<open>v\<close> is a string. For the other tags, which
  \<open>nothing.js\<close> never passes, the model compares with \<open>typeof\<close>.
\<close>

definition type_check :: "heap \<Rightarrow> val \<Rightarrow> string \<Rightarrow> bool" where
  "type_check h v t =
     (if t = ''object''
      then (case v of
              VRef a \<Rightarrow> (case cell_at h a of Some (Obj p ps) \<Rightarrow> True | _ \<Rightarrow> False)
            | _ \<Rightarrow> False)
      else typeof v = t)"


section \<open>The table of defaults and its lookups\<close>

text \<open>
  When the module is loaded, \<open>Object.create(null)\<close> and \<open>Array.from([])\<close> allocate the two
  shared containers of the table: the object at address 0 and the array at address 1.
\<close>

definition object_addr :: addr where
  "object_addr = 0"

definition array_addr :: addr where
  "array_addr = 1"

definition init_heap :: heap where
  "init_heap = [Obj NullProto [], Arr [], Obj ObjectProto []]"

definition NOTHING_own :: "(string \<times> val) list" where
  "NOTHING_own =
     [(''object'', VRef object_addr),
      (''string'', VStr ''''),
      (''number'', VNum 0),
      (''boolean'', VBool False),
      (''array'', VRef array_addr),
      (''function'', VFun NoOp),
      (''null'', VNull),
      (''undefined'', VUndefined)]"

text \<open>\<open>NOTHING[type]\<close>: the table is an object literal, so it inherits from \<open>Object.prototype\<close>.\<close>

definition NOTHING :: "string \<Rightarrow> val" where
  "NOTHING t = (case map_of NOTHING_own t of Some v \<Rightarrow> v | None \<Rightarrow> proto_member t)"

definition by_type :: "string \<Rightarrow> val" where
  "by_type t = (if truthy (NOTHING t) then NOTHING t else NOTHING ''undefined'')"

definition by_value :: "val \<Rightarrow> val" where
  "by_value v = by_type (typeof v)"

definition is_default :: "heap \<Rightarrow> val \<Rightarrow> bool" where
  "is_default h v =
     (if is_null v then True
      else if is_array h v then array_length h v = 0
      else if typeof v = ''object'' then length (object_keys h v) = 0
      else strict_eq v (by_value v))"

definition set_default :: "heap \<Rightarrow> val \<Rightarrow> val \<Rightarrow> val" where
  "set_default h v default_value = (if \<not> is_default h v then v else default_value)"

definition normalize :: "val \<Rightarrow> val" where
  "normalize v = (if is_null v then by_type ''null'' else v)"

text \<open>The exported constants \<open>do_nothing\<close> and \<open>object\<close>.\<close>

definition do_nothing :: val where
  "do_nothing = by_type ''function''"

definition object :: val where
  "object = by_type ''object''"


section \<open>The object-shape utilities\<close>

text \<open>
  Each utility takes the heap and returns the heap it leaves behind together with either the
  error it raised or the value it returned: an exception does not undo the writes made
  before it. The recursive utilities take a bound on the nesting of their calls and return
  \<open>None\<close> when the recursion goes deeper (on a cyclic object it never ends). The depth
  budget \<open>deep\<close> is always passed; a caller that omits it passes \<open>-1\<close>.

  A \<open>for (const key in source)\<close> loop runs over the keys \<open>source\<close> has when the loop starts,
  and its body is guarded by \<open>hasOwnProperty\<close>, evaluated when the key is reached.
\<close>

text \<open>The key named by a property name; only strings get this far.\<close>

fun key_of :: "val \<Rightarrow> string" where
  "key_of (VStr s) = s"
| "key_of v = []"

fun from_object_loop :: "heap \<Rightarrow> val \<Rightarrow> val \<Rightarrow> val list \<Rightarrow> val outcome" where
  "from_object_loop h source result [] = (h, Inr result)"
| "from_object_loop h source result (prop # properties) =
     (if \<not> type_check h prop ''string''
      then (h, Inl (TypeError (''Property name must be a string, but got '' @ typeof prop)))
      else if has_own h source (key_of prop)
      then from_object_loop (prop_set h result (key_of prop) (prop_get h source (key_of prop)))
             source result properties
      else from_object_loop h source result properties)"

definition from_object :: "heap \<Rightarrow> val \<Rightarrow> val list \<Rightarrow> val outcome" where
  "from_object h source properties =
     (if \<not> type_check h source ''object''
      then (h, Inl (TypeError ''Source must be an object.''))
      else from_object_loop h source object properties)"

text \<open>The depth handed to a recursive call: \<open>deep === -1 ? -1 : deep - 1\<close>.\<close>

definition next_deep :: "int \<Rightarrow> int" where
  "next_deep deep = (if deep = -1 then -1 else deep - 1)"

fun purification :: "nat \<Rightarrow> heap \<Rightarrow> val \<Rightarrow> int \<Rightarrow> val outcome option"
  and purification_loop ::
    "nat \<Rightarrow> heap \<Rightarrow> val \<Rightarrow> int \<Rightarrow> val \<Rightarrow> string list \<Rightarrow> val outcome option"
where
  "purification 0 h source deep = None"
| "purification (Suc n) h source deep =
     (if deep \<le> 0 \<and> deep \<noteq> -1 then Some (h, Inr source)
      else if \<not> type_check h source ''object''
      then Some (h, Inl (TypeError ''Source must be an object.''))
      else purification_loop n h source deep object (object_keys h source))"
| "purification_loop n h source deep result [] = Some (h, Inr result)"
| "purification_loop n h source deep result (key # keys) =
     (if has_own h source key
      then (if is_default h (prop_get h source key)
            then purification_loop n h source deep result keys
            else if type_check h (prop_get h source key) ''object''
            then (case purification n h (prop_get h source key) (next_deep deep) of
                    None \<Rightarrow> None
                  | Some (h', Inl e) \<Rightarrow> Some (h', Inl e)
                  | Some (h', Inr r) \<Rightarrow>
                      purification_loop n (prop_set h' result key r) source deep result keys)
            else purification_loop n (prop_set h result key (prop_get h source key))
                   source deep result keys)
      else purification_loop n h source deep result keys)"

fun shallow_merge_loop :: "heap \<Rightarrow> val \<Rightarrow> val \<Rightarrow> string list \<Rightarrow> heap" where
  "shallow_merge_loop h target source [] = h"
| "shallow_merge_loop h target source (key # keys) =
     (if has_own h source key
      then shallow_merge_loop (prop_set h target key (prop_get h source key)) target source keys
      else shallow_merge_loop h target source keys)"

definition shallow_merge :: "heap \<Rightarrow> val \<Rightarrow> val \<Rightarrow> val outcome" where
  "shallow_merge h target source =
     (if \<not> (type_check h target ''object'' \<and> type_check h source ''object'')
      then (h, Inl (TypeError ''Both target and source must be objects.''))
      else (shallow_merge_loop h target source (object_keys h source), Inr target))"

text \<open>
  In \<open>target[key] = deep_merge(target[key] || {}, source[key], ...)\<close> the arguments are
  evaluated from left to right, so the empty object is allocated before \<open>source[key]\<close> is
  read; \<open>merge_target\<close> is the first argument and the heap after its evaluation.
\<close>

definition merge_target :: "heap \<Rightarrow> val \<Rightarrow> string \<Rightarrow> heap \<times> val" where
  "merge_target h target key =
     (if truthy (prop_get h target key) then (h, prop_get h target key) else alloc_empty h)"

fun deep_merge :: "nat \<Rightarrow> heap \<Rightarrow> val \<Rightarrow> val \<Rightarrow> int \<Rightarrow> val outcome option"
  and deep_merge_loop ::
    "nat \<Rightarrow> heap \<Rightarrow> val \<Rightarrow> val \<Rightarrow> int \<Rightarrow> string list \<Rightarrow> val outcome option"
where
  "deep_merge 0 h target source deep = None"
| "deep_merge (Suc n) h target source deep =
     (if deep \<le> 0 \<and> deep \<noteq> -1 then Some (h, Inr target)
      else if \<not> (type_check h target ''object'' \<and> type_check h source ''object'')
      then Some (h, Inl (TypeError ''Both target and source must be objects.''))
      else deep_merge_loop n h target source deep (object_keys h source))"
| "deep_merge_loop n h target source deep [] = Some (h, Inr target)"
| "deep_merge_loop n h target source deep (key # keys) =
     (if has_own h source key
      then (if type_check h (prop_get h source key) ''object''
               \<and> \<not> is_array h (prop_get h source key)
            then (case merge_target h target key of
                    (h1, t1) \<Rightarrow>
                      (case deep_merge n h1 t1 (prop_get h1 source key) (next_deep deep) of
                         None \<Rightarrow> None
                       | Some (h2, Inl e) \<Rightarrow> Some (h2, Inl e)
                       | Some (h2, Inr r) \<Rightarrow>
                           deep_merge_loop n (prop_set h2 target key r) target source deep keys))
            else deep_merge_loop n (prop_set h target key (prop_get h source key))
                   target source deep keys)
      else deep_merge_loop n h target source deep keys)"

fun cut_default :: "nat \<Rightarrow> heap \<Rightarrow> val \<Rightarrow> int \<Rightarrow> val outcome option"
  and cut_default_loop :: "nat \<Rightarrow> heap \<Rightarrow> val \<Rightarrow> int \<Rightarrow> string list \<Rightarrow> val outcome option"
where
  "cut_default 0 h source deep = None"
| "cut_default (Suc n) h source deep =
     (if \<not> type_check h source ''object''
      then Some (h, Inl (TypeError ''Source must be an object.''))
      else if deep \<le> 0 \<and> deep \<noteq> -1 then Some (h, Inr VUndefined)
      else cut_default_loop n h source deep (object_keys h source))"
| "cut_default_loop n h source deep [] = Some (h, Inr VUndefined)"
| "cut_default_loop n h source deep (key # keys) =
     (if has_own h source key
      then (if is_default h (prop_get h source key)
            then cut_default_loop n (prop_delete h source key) source deep keys
            else if type_check h (prop_get h source key) ''object''
            then (case cut_default n h (prop_get h source key) (next_deep deep) of
                    None \<Rightarrow> None
                  | Some (h', Inl e) \<Rightarrow> Some (h', Inl e)
                  | Some (h', Inr u) \<Rightarrow> cut_default_loop n h' source deep keys)
            else cut_default_loop n h source deep keys)
      else cut_default_loop n h source deep keys)"


text \<open>
  \<open>heap_extends h h'\<close>: the heap \<open>h'\<close> has every address of \<open>h\<close>, and every keyed
  container of \<open>h\<close> is still one in \<open>h'\<close>.
\<close>

definition heap_extends :: "heap \<Rightarrow> heap \<Rightarrow> bool" where
  "heap_extends h h' =
     (length h \<le> length h'
      \<and> (\<forall>w. type_check h w ''object'' \<longrightarrow> type_check h' w ''object''))"


section \<open>Sample heaps\<close>

text \<open>
  Caller objects are allocated after the three objects of the module-load heap, from
  address 3 on. \<open>purify_heap\<close> holds \<open>{a: "", b: null, c: 42, nested: {d: 0, e: 5}}\<close> at
  address 3 and the nested object at address 4.
\<close>

definition purify_heap :: heap where
  "purify_heap = init_heap @
     [Obj ObjectProto [(''a'', VStr ''''), (''b'', VNull), (''c'', VNum 42), (''nested'', VRef 4)],
      Obj ObjectProto [(''d'', VNum 0), (''e'', VNum 5)]]"

text \<open>\<open>copy_heap\<close> holds \<open>{a: 1}\<close> at address 3 and \<open>{b: 2}\<close> at address 4.\<close>

definition copy_heap :: heap where
  "copy_heap = init_heap @
     [Obj ObjectProto [(''a'', VNum 1)], Obj ObjectProto [(''b'', VNum 2)]]"

text \<open>
  \<open>nested_heap\<close> holds the target \<open>{n: {x: 1}}\<close> at address 3 and the source \<open>{n: {y: 2}}\<close>
  at address 4; the nested objects are at addresses 5 and 6.
\<close>

definition nested_heap :: heap where
  "nested_heap = init_heap @
     [Obj ObjectProto [(''n'', VRef 5)], Obj ObjectProto [(''n'', VRef 6)],
      Obj ObjectProto [(''x'', VNum 1)], Obj ObjectProto [(''y'', VNum 2)]]"

text \<open>
  \<open>partial_heap\<close> holds the target \<open>{a: 0, b: 5}\<close> at address 3 and the source
  \<open>{a: 1, b: {x: 1}}\<close> at address 4.
\<close>

definition partial_heap :: heap where
  "partial_heap = init_heap @
     [Obj ObjectProto [(''a'', VNum 0), (''b'', VNum 5)],
      Obj ObjectProto [(''a'', VNum 1), (''b'', VRef 5)],
      Obj ObjectProto [(''x'', VNum 1)]]"

text \<open>
  \<open>falsy_heap\<close> holds the target \<open>{a: 0}\<close> at address 3 and the source \<open>{a: {x: 1}}\<close> at
  address 4.
\<close>

definition falsy_heap :: heap where
  "falsy_heap = init_heap @
     [Obj ObjectProto [(''a'', VNum 0)], Obj ObjectProto [(''a'', VRef 5)],
      Obj ObjectProto [(''x'', VNum 1)]]"

text \<open>
  \<open>container_heap\<close> holds the arrays \<open>[]\<close> and \<open>[1]\<close> at addresses 3 and 4 and the objects
  \<open>{}\<close> and \<open>{a: 1}\<close> at addresses 5 and 6.
\<close>

definition container_heap :: heap where
  "container_heap = init_heap @
     [Arr [], Arr [VNum 1], Obj ObjectProto [], Obj ObjectProto [(''a'', VNum 1)]]"


section \<open>Basic facts\<close>

lemmas lookup_defs =
  by_value_def by_type_def NOTHING_def NOTHING_own_def proto_member_def
  object_addr_def array_addr_def

lemma by_type_table:
  "by_type ''object'' = VRef 0"
  "by_type ''array'' = VRef 1"
  "by_type ''function'' = VFun NoOp"
  "by_type ''undefined'' = VUndefined"
  by (simp_all add: lookup_defs)

lemma by_type_inherited: "by_type ''toString'' = VFun (ProtoFn ''toString'')"
  by (simp add: lookup_defs)

text \<open>Allocating an object does not change what a read of an owned key returns.\<close>

lemma prop_get_append:
  "has_own h v k \<Longrightarrow> prop_get (h @ [c]) v k = prop_get h v k"
  by (auto simp: has_own_def own_props_def prop_get_def cell_at_def nth_append
      split: val.splits option.splits cell.splits if_splits)

text \<open>The keys enumerated for an object are keys it owns.\<close>

lemma key_order_set: "set (key_order ks) = set ks"
  by (auto simp: key_order_def)

lemma object_keys_has_own: "key \<in> set (object_keys h v) \<Longrightarrow> has_own h v key"
  by (simp add: object_keys_def key_order_set has_own_def map_of_eq_None_iff)

text \<open>Writes and allocations keep every keyed container a keyed container.\<close>

lemma prop_get_prop_set:
  "type_check h t ''object'' \<Longrightarrow> prop_get (prop_set h t k x) t k = x"
  by (auto simp: type_check_def prop_get_def prop_set_def cell_at_def update_conv'
      split: val.splits option.splits cell.splits if_splits)

lemma type_check_prop_set:
  "type_check (prop_set h v k x) w ''object'' = type_check h w ''object''"
  by (auto simp: type_check_def prop_set_def cell_at_def nth_list_update
      split: val.splits option.splits cell.splits if_splits)

lemma length_prop_set: "length (prop_set h v k x) = length h"
  by (auto simp: prop_set_def split: val.splits option.splits cell.splits)

lemma type_check_append:
  "type_check h w ''object'' \<Longrightarrow> type_check (h @ cs) w ''object''"
  by (auto simp: type_check_def cell_at_def nth_append
      split: val.splits option.splits cell.splits if_splits)

lemma heap_extends_refl: "heap_extends h h"
  by (simp add: heap_extends_def)

lemma heap_extends_trans: "heap_extends h1 h2 \<Longrightarrow> heap_extends h2 h3 \<Longrightarrow> heap_extends h1 h3"
  by (auto simp: heap_extends_def)

lemma heap_extends_prop_set: "heap_extends h (prop_set h v k x)"
  by (simp add: heap_extends_def type_check_prop_set length_prop_set)

lemma heap_extends_merge_target: "heap_extends h (fst (merge_target h t k))"
  by (simp add: heap_extends_def merge_target_def alloc_empty_def type_check_append)

text \<open>A merge only adds to the heap.\<close>

lemma deep_merge_keeps:
  "\<forall>h' res. deep_merge n h t s d = Some (h', res) \<longrightarrow> heap_extends h h'"
  "\<forall>h' res. deep_merge_loop n h t s d ks = Some (h', res) \<longrightarrow> heap_extends h h'"
proof (induction n h t s d and n h t s d ks rule: deep_merge_deep_merge_loop.induct)
  case (1 h target source deep)
  show ?case by simp
next
  case (2 n h target source deep)
  then show ?case by (simp add: heap_extends_refl split: if_splits)
next
  case (3 n h target source deep)
  show ?case by (simp add: heap_extends_refl)
next
  case (4 n h target source deep key keys)
  show ?case
  proof (intro allI impI)
    fix h' res
    assume run: "deep_merge_loop n h target source deep (key # keys) = Some (h', res)"
    show "heap_extends h h'"
    proof (cases "has_own h source key")
      case False
      with run have "deep_merge_loop n h target source deep keys = Some (h', res)"
        by simp
      with 4(4) [OF False] show ?thesis by blast
    next
      case own: True
      show ?thesis
      proof (cases "type_check h (prop_get h source key) ''object'' \<and> \<not> is_array h (prop_get h source key)")
        case False
        with run own have
          "deep_merge_loop n (prop_set h target key (prop_get h source key)) target source deep keys
             = Some (h', res)"
          by auto
        with 4(3) [OF own False] have
          "heap_extends (prop_set h target key (prop_get h source key)) h'" by blast
        with heap_extends_prop_set show ?thesis by (rule heap_extends_trans)
      next
        case c: True
        obtain h1 t1 where mt: "merge_target h target key = (h1, t1)"
          by (cases "merge_target h target key")
        have k1: "heap_extends h h1"
          using heap_extends_merge_target [of h target key] mt by simp
        from run own c mt have run':
          "(case deep_merge n h1 t1 (prop_get h1 source key) (next_deep deep) of
              None \<Rightarrow> None
            | Some (h2, Inl e) \<Rightarrow> Some (h2, Inl e)
            | Some (h2, Inr r) \<Rightarrow>
                deep_merge_loop n (prop_set h2 target key r) target source deep keys)
           = Some (h', res)"
          by simp
        then obtain h2 r2 where
          nested: "deep_merge n h1 t1 (prop_get h1 source key) (next_deep deep) = Some (h2, r2)"
          by (cases "deep_merge n h1 t1 (prop_get h1 source key) (next_deep deep)") auto
        from 4(1) [OF own c mt [symmetric]] nested have k2: "heap_extends h1 h2"
          by blast
        show ?thesis
        proof (cases r2)
          case (Inl e)
          with run' nested have "h' = h2" by simp
          with k1 k2 show ?thesis by (blast intro: heap_extends_trans)
        next
          case (Inr r)
          with run' nested have
            "deep_merge_loop n (prop_set h2 target key r) target source deep keys = Some (h', res)"
            by simp
          with 4(2) [OF own c mt [symmetric] nested [unfolded Inr] refl refl]
          have "heap_extends (prop_set h2 target key r) h'"
            by blast
          with k1 k2 heap_extends_prop_set [of h2 target key r] show ?thesis
            by (blast intro: heap_extends_trans)
        qed
      qed
    qed
  qed
qed

text \<open>
  A depth budget that is at least the bound on the nesting of the calls is never used up:
  the merge is then the one of the unlimited depth \<open>-1\<close>.
\<close>

lemma deep_merge_unlimited:
  "int n \<le> d \<longrightarrow> deep_merge n h t s d = deep_merge n h t s (-1)"
  "int n < d \<longrightarrow> deep_merge_loop n h t s d ks = deep_merge_loop n h t s (-1) ks"
proof (induction n h t s d and n h t s d ks rule: deep_merge_deep_merge_loop.induct)
  case (1 h target source deep)
  show ?case by simp
next
  case (2 n h target source deep)
  then show ?case by simp
next
  case (3 n h target source deep)
  show ?case by simp
next
  case (4 n h target source deep key keys)
  show ?case
  proof
    assume lt: "int n < deep"
    then have nd: "next_deep (-1) = -1" "int n \<le> next_deep deep"
      by (simp_all add: next_deep_def)
    show "deep_merge_loop n h target source deep (key # keys) =
          deep_merge_loop n h target source (-1) (key # keys)"
      using 4 lt nd
      by (auto split: prod.splits option.splits sum.splits)
  qed
qed

text \<open>A merge that returns a value returns its target.\<close>

lemma deep_merge_returns_target:
  "\<forall>h' r. deep_merge n h t s d = Some (h', Inr r) \<longrightarrow> r = t"
  "\<forall>h' r. deep_merge_loop n h t s d ks = Some (h', Inr r) \<longrightarrow> r = t"
proof (induction n h t s d and n h t s d ks rule: deep_merge_deep_merge_loop.induct)
  case (1 h target source deep)
  show ?case by simp
next
  case (2 n h target source deep)
  then show ?case by (simp split: if_splits)
next
  case (3 n h target source deep)
  show ?case by simp
next
  case (4 n h target source deep key keys)
  then show ?case
    by (auto split: prod.splits option.splits sum.splits if_splits)
qed

text \<open>
  \<open>purification\<close> and \<open>cut_default\<close> only recurse into a value that has just passed the
  check they start with, so the only error they can return is the one of their own entry
  check, and the heap is then the one they were given.
\<close>

lemma purification_error:
  "\<forall>h' e. purification n h s d = Some (h', Inl e) \<longrightarrow> h' = h \<and> \<not> type_check h s ''object''"
  "\<forall>h' e. purification_loop n h s d res ks \<noteq> Some (h', Inl e)"
proof (induction n h s d and n h s d res ks rule: purification_purification_loop.induct)
  case (1 h source deep)
  show ?case by simp
next
  case (2 n h source deep)
  then show ?case by (simp split: if_splits)
next
  case (3 n h source deep result)
  show ?case by simp
next
  case (4 n h source deep result key keys)
  then show ?case
    by (auto split: option.splits sum.splits prod.splits if_splits)
qed

lemma cut_default_error:
  "\<forall>h' e. cut_default n h s d = Some (h', Inl e) \<longrightarrow> h' = h \<and> \<not> type_check h s ''object''"
  "\<forall>h' e. cut_default_loop n h s d ks \<noteq> Some (h', Inl e)"
proof (induction n h s d and n h s d ks rule: cut_default_cut_default_loop.induct)
  case (1 h source deep)
  show ?case by simp
next
  case (2 n h source deep)
  then show ?case by (simp split: if_splits)
next
  case (3 n h source deep)
  show ?case by simp
next
  case (4 n h source deep key keys)
  then show ?case
    by (auto split: option.splits sum.splits prod.splits if_splits)
qed

text \<open>
  \<open>is_default\<close> on empty and non-empty arrays and objects. On the heap of module load, the
  default of each of the eight tags is a default; the defaults of \<open>"string"\<close>, \<open>"number"\<close>,
  \<open>"boolean"\<close> and \<open>"null"\<close> are \<open>undefined\<close> there.
\<close>

lemma is_default_containers:
  "is_default container_heap (VRef 3) \<and> \<not> is_default container_heap (VRef 4)
   \<and> is_default container_heap (VRef 5) \<and> \<not> is_default container_heap (VRef 6)"
  by code_simp

lemma is_default_by_type_at_load:
  "list_all (\<lambda>t. is_default init_heap (by_type t))
     [''object'', ''string'', ''number'', ''boolean'', ''array'', ''function'', ''null'',
      ''undefined'']"
  by (simp add: is_default_def is_null_def is_array_def array_length_def object_keys_def
      own_props_def key_order_def cell_at_def init_heap_def strict_eq_def lookup_defs)


section \<open>The claims\<close>

subsection \<open>Lookups and the default predicate\<close>

text \<open>
  Claim C1: \<open>is_default\<close> is true for each canonical empty value and false for each
  non-empty counterpart. The code disagrees on the empty scalars: in \<open>by_type\<close>, the
  fallback \<open>NOTHING[type] || NOTHING["undefined"]\<close> replaces the falsy entries of the table by
  \<open>undefined\<close>, so the empty string, zero and false are compared with \<open>undefined\<close> and are
  not defaults, on any heap; the other values of the claim come out as it says.
\<close>

theorem is_default_empty_scalars:
  "\<not> is_default h (VStr '''') \<and> \<not> is_default h (VNum 0) \<and> \<not> is_default h (VBool False)
   \<and> is_default h VNull \<and> is_default h VUndefined
   \<and> \<not> is_default h (VStr ''x'') \<and> \<not> is_default h (VNum 1) \<and> \<not> is_default h (VBool True)"
  by (simp add: is_default_def is_null_def is_array_def strict_eq_def lookup_defs)

text \<open>
  Claim C2: \<open>by_type\<close> returns the table's entry for every recognized tag. The code returns
  \<open>undefined\<close> instead of the entry for the four tags whose entry is falsy: \<open>"string"\<close>,
  \<open>"number"\<close>, \<open>"boolean"\<close> and \<open>"null"\<close>.
\<close>

theorem by_type_falsy_entries:
  "NOTHING ''string'' = VStr '''' \<and> by_type ''string'' = VUndefined
   \<and> NOTHING ''number'' = VNum 0 \<and> by_type ''number'' = VUndefined
   \<and> NOTHING ''boolean'' = VBool False \<and> by_type ''boolean'' = VUndefined
   \<and> NOTHING ''null'' = VNull \<and> by_type ''null'' = VUndefined"
  by (simp add: lookup_defs)

text \<open>
  Claim C4: \<open>is_default(by_type(t))\<close> is true for every tag. The default of \<open>"object"\<close> is the
  one shared object of the table, and \<open>from_object\<close> writes its result into that very object:
  after \<open>from_object({a: 1}, "a")\<close> the default of \<open>"object"\<close> owns the key \<open>a\<close> and is no
  longer a default.
\<close>

theorem is_default_object_after_from_object:
  "from_object copy_heap (VRef 3) [VStr ''a''] =
     ([Obj NullProto [(''a'', VNum 1)], Arr [], Obj ObjectProto [],
       Obj ObjectProto [(''a'', VNum 1)], Obj ObjectProto [(''b'', VNum 2)]],
      Inr (VRef 0))
   \<and> \<not> is_default (fst (from_object copy_heap (VRef 3) [VStr ''a''])) (by_type ''object'')"
  by code_simp

text \<open>
  Claim C7: \<open>normalize\<close> returns the canonical null default, the table's \<open>null\<close>, for an
  absence-marker. The code returns \<open>by_type("null")\<close>, which is \<open>undefined\<close> and not \<open>null\<close>;
  a value that is not an absence-marker is returned unchanged.
\<close>

theorem normalize_absent_is_undefined:
  "normalize VNull = VUndefined \<and> normalize VUndefined = VUndefined
   \<and> normalize VNaN = VUndefined \<and> \<not> strict_eq (normalize VNull) (NOTHING ''null'')
   \<and> normalize (VStr ''x'') = VStr ''x''"
  by (simp add: normalize_def is_null_def strict_eq_def lookup_defs)


subsection \<open>Copies\<close>

text \<open>
  Claim C3: \<open>purification\<close> returns a new bare container that omits the defaults and holds
  the purified nested containers; the example of the claim yields \<open>{c: 42, nested: {e: 5}}\<close>.
  In the code every call, also a recursive one, writes into the shared object of the table.
  On the example it returns that object (address 0), which then holds the keys of both
  levels, keeps \<open>a: ""\<close> and \<open>d: 0\<close> (see C1), and has itself as \<open>nested\<close>.
\<close>

theorem purification_example:
  "purification 2 purify_heap (VRef 3) (-1) =
     Some ([Obj NullProto [(''a'', VStr ''''), (''c'', VNum 42), (''d'', VNum 0),
                           (''e'', VNum 5), (''nested'', VRef 0)],
            Arr [], Obj ObjectProto [],
            Obj ObjectProto [(''a'', VStr ''''), (''b'', VNull), (''c'', VNum 42),
                             (''nested'', VRef 4)],
            Obj ObjectProto [(''d'', VNum 0), (''e'', VNum 5)]],
           Inr (VRef 0))"
  by code_simp

text \<open>
  Claim C5: \<open>from_object\<close> returns a new container holding exactly the requested own
  properties of its source. The code returns the shared object of the table, which keeps
  what earlier calls wrote: \<open>from_object({b: 2}, "b")\<close> after \<open>from_object({a: 1}, "a")\<close>
  returns \<open>{a: 1, b: 2}\<close>, at the same address as the first result.
\<close>

theorem from_object_accumulates:
  "from_object (fst (from_object copy_heap (VRef 3) [VStr ''a''])) (VRef 4) [VStr ''b''] =
     ([Obj NullProto [(''a'', VNum 1), (''b'', VNum 2)], Arr [], Obj ObjectProto [],
       Obj ObjectProto [(''a'', VNum 1)], Obj ObjectProto [(''b'', VNum 2)]],
      Inr (VRef 0))
   \<and> snd (from_object copy_heap (VRef 3) [VStr ''a'']) = Inr (VRef 0)"
  by code_simp


subsection \<open>Merging\<close>

text \<open>
  The claim C6 as the spec states it, that every negative depth makes \<open>deep_merge\<close> an
  unlimited merge, fails at depth \<open>-2\<close>: merging \<open>{n: {y: 2}}\<close> into \<open>{n: {x: 1}}\<close> leaves the
  heap as it is, while depth \<open>-1\<close> merges \<open>y\<close> into the nested target.
\<close>

theorem deep_merge_negative_depth_counterexample:
  "deep_merge 2 nested_heap (VRef 3) (VRef 4) (-2) = Some (nested_heap, Inr (VRef 3))
   \<and> deep_merge 2 nested_heap (VRef 3) (VRef 4) (-1) =
       Some ([Obj NullProto [], Arr [], Obj ObjectProto [],
              Obj ObjectProto [(''n'', VRef 5)], Obj ObjectProto [(''n'', VRef 6)],
              Obj ObjectProto [(''x'', VNum 1), (''y'', VNum 2)],
              Obj ObjectProto [(''y'', VNum 2)]],
             Inr (VRef 3))"
  by code_simp

text \<open>
  Claim C6, amended: for integer depths, a call of \<open>deep_merge\<close> with depth 0, or with any
  negative depth other than \<open>-1\<close>, returns its target at once and leaves the heap as it is,
  whatever the arguments are. With depth \<open>-1\<close> or a positive depth, and a target and a
  source that are keyed containers, the call runs the merge loop over the keys of the source.
  The descent into a nested container passes the depth \<open>-1\<close> on as it is, and any other
  depth less one. Only the depth \<open>-1\<close> is unlimited: a merge with a depth that its nesting
  never uses up is the merge with depth \<open>-1\<close>.
\<close>

theorem deep_merge_depth_budget:
  "(deep \<le> 0 \<and> deep \<noteq> -1 \<longrightarrow>
      deep_merge (Suc n) h target source deep = Some (h, Inr target))
   \<and> ((deep = -1 \<or> 0 < deep)
        \<and> type_check h target ''object'' \<and> type_check h source ''object'' \<longrightarrow>
      deep_merge (Suc n) h target source deep =
        deep_merge_loop n h target source deep (object_keys h source))
   \<and> (has_own h source key \<and> type_check h (prop_get h source key) ''object''
        \<and> \<not> is_array h (prop_get h source key) \<longrightarrow>
      deep_merge_loop n h target source deep (key # keys) =
        (case merge_target h target key of
           (h1, t1) \<Rightarrow>
             (case deep_merge n h1 t1 (prop_get h1 source key)
                     (if deep = -1 then -1 else deep - 1) of
                None \<Rightarrow> None
              | Some (h2, Inl e) \<Rightarrow> Some (h2, Inl e)
              | Some (h2, Inr r) \<Rightarrow>
                  deep_merge_loop n (prop_set h2 target key r) target source deep keys)))
   \<and> (int (Suc n) \<le> deep \<longrightarrow>
      deep_merge (Suc n) h target source deep = deep_merge (Suc n) h target source (-1))"
proof (intro conjI impI)
  assume "deep \<le> 0 \<and> deep \<noteq> -1"
  then show "deep_merge (Suc n) h target source deep = Some (h, Inr target)"
    by simp
next
  assume "(deep = -1 \<or> 0 < deep)
    \<and> type_check h target ''object'' \<and> type_check h source ''object''"
  then show "deep_merge (Suc n) h target source deep =
      deep_merge_loop n h target source deep (object_keys h source)"
    by auto
next
  assume "has_own h source key \<and> type_check h (prop_get h source key) ''object''
    \<and> \<not> is_array h (prop_get h source key)"
  then show "deep_merge_loop n h target source deep (key # keys) =
        (case merge_target h target key of
           (h1, t1) \<Rightarrow>
             (case deep_merge n h1 t1 (prop_get h1 source key)
                     (if deep = -1 then -1 else deep - 1) of
                None \<Rightarrow> None
              | Some (h2, Inl e) \<Rightarrow> Some (h2, Inl e)
              | Some (h2, Inr r) \<Rightarrow>
                  deep_merge_loop n (prop_set h2 target key r) target source deep keys))"
    by (simp add: next_deep_def)
next
  assume "int (Suc n) \<le> deep"
  then show "deep_merge (Suc n) h target source deep = deep_merge (Suc n) h target source (-1)"
    using deep_merge_unlimited(1) [of "Suc n" deep h target source] by blast
qed

theorem deep_merge_depth_budget_witness:
  "((0::int) \<le> 0 \<and> (0::int) \<noteq> -1)
   \<and> deep_merge (Suc 1) nested_heap (VRef 3) (VRef 4) 0 = Some (nested_heap, Inr (VRef 3))
   \<and> ((2::int) = -1 \<or> (0::int) < 2)
   \<and> type_check nested_heap (VRef 3) ''object'' \<and> type_check nested_heap (VRef 4) ''object''
   \<and> deep_merge (Suc 1) nested_heap (VRef 3) (VRef 4) 2 =
       deep_merge_loop 1 nested_heap (VRef 3) (VRef 4) 2 (object_keys nested_heap (VRef 4))
   \<and> has_own nested_heap (VRef 4) ''n''
   \<and> type_check nested_heap (prop_get nested_heap (VRef 4) ''n'') ''object''
   \<and> \<not> is_array nested_heap (prop_get nested_heap (VRef 4) ''n'')
   \<and> int (Suc 1) \<le> 2
   \<and> deep_merge (Suc 1) nested_heap (VRef 3) (VRef 4) 2 =
       deep_merge (Suc 1) nested_heap (VRef 3) (VRef 4) (-1)
   \<and> deep_merge (Suc 1) nested_heap (VRef 3) (VRef 4) 2 =
       Some ([Obj NullProto [], Arr [], Obj ObjectProto [],
              Obj ObjectProto [(''n'', VRef 5)], Obj ObjectProto [(''n'', VRef 6)],
              Obj ObjectProto [(''x'', VNum 1), (''y'', VNum 2)],
              Obj ObjectProto [(''y'', VNum 2)]],
             Inr (VRef 3))
   \<and> deep_merge (Suc 1) nested_heap (VRef 3) (VRef 4) 1 = Some (nested_heap, Inr (VRef 3))"
proof -
  have guard: "(0::int) \<le> 0 \<and> (0::int) \<noteq> -1"
    by simp
  have depth: "(2::int) = -1 \<or> (0::int) < 2"
    by simp
  have tgt: "type_check nested_heap (VRef 3) ''object''"
    by code_simp
  have src: "type_check nested_heap (VRef 4) ''object''"
    by code_simp
  have own: "has_own nested_heap (VRef 4) ''n''"
    by code_simp
  have chk: "type_check nested_heap (prop_get nested_heap (VRef 4) ''n'') ''object''"
    by code_simp
  have arr: "\<not> is_array nested_heap (prop_get nested_heap (VRef 4) ''n'')"
    by code_simp
  have fuel: "int (Suc 1) \<le> 2"
    by simp
  have two: "deep_merge (Suc 1) nested_heap (VRef 3) (VRef 4) 2 =
       Some ([Obj NullProto [], Arr [], Obj ObjectProto [],
              Obj ObjectProto [(''n'', VRef 5)], Obj ObjectProto [(''n'', VRef 6)],
              Obj ObjectProto [(''x'', VNum 1), (''y'', VNum 2)],
              Obj ObjectProto [(''y'', VNum 2)]],
             Inr (VRef 3))"
    by code_simp
  have one: "deep_merge (Suc 1) nested_heap (VRef 3) (VRef 4) 1 =
       Some (nested_heap, Inr (VRef 3))"
    by code_simp
  note at_zero = deep_merge_depth_budget [of 0 1 nested_heap "VRef 3" "VRef 4" "''n''" "[]"]
  note at_two = deep_merge_depth_budget [of 2 1 nested_heap "VRef 3" "VRef 4" "''n''" "[]"]
  from at_zero guard
  have zero: "deep_merge (Suc 1) nested_heap (VRef 3) (VRef 4) 0 =
      Some (nested_heap, Inr (VRef 3))"
    by blast
  from at_two depth tgt src
  have enter: "deep_merge (Suc 1) nested_heap (VRef 3) (VRef 4) 2 =
       deep_merge_loop 1 nested_heap (VRef 3) (VRef 4) 2 (object_keys nested_heap (VRef 4))"
    by blast
  from at_two fuel
  have unl: "deep_merge (Suc 1) nested_heap (VRef 3) (VRef 4) 2 =
       deep_merge (Suc 1) nested_heap (VRef 3) (VRef 4) (-1)"
    by blast
  show ?thesis
    using guard zero depth tgt src enter own chk arr fuel unl two one by blast
qed

text \<open>
  Claim C9: in \<open>deep_merge\<close> with remaining depth (the depth \<open>-1\<close> or a positive one), when
  the loop reaches a key whose value in the source is a keyed container that is not an array
  and the value read at \<open>target[key]\<close> is falsy (zero, the empty string, false, null,
  not-a-number, or undefined as for a missing key), the nested merge runs on a freshly
  allocated empty object in place of that value, and that object, which holds the result of
  the nested merge, is written to \<open>target[key]\<close> before the loop goes on. So it is for the
  first key of a call of \<open>deep_merge\<close>, and when that key is the only one, the call returns
  its target with the new container at \<open>target[key]\<close>; with depth 1 the nested merge has no
  depth left, and the call returns with the empty object at \<open>target[key]\<close>.
\<close>

theorem deep_merge_falsy_target:
  assumes tgt: "type_check h target ''object''"
    and own: "has_own h source key"
    and obj: "type_check h (prop_get h source key) ''object''"
    and arr: "\<not> is_array h (prop_get h source key)"
    and falsy: "\<not> truthy (prop_get h target key)"
  shows "deep_merge_loop n h target source deep (key # keys) =
      (case deep_merge n (h @ [Obj ObjectProto []]) (VRef (length h)) (prop_get h source key)
              (next_deep deep) of
         None \<Rightarrow> None
       | Some (h2, Inl e) \<Rightarrow> Some (h2, Inl e)
       | Some (h2, Inr r) \<Rightarrow>
           deep_merge_loop n (prop_set h2 target key (VRef (length h))) target source deep keys)
    \<and> (\<forall>h2 r. deep_merge n (h @ [Obj ObjectProto []]) (VRef (length h))
                  (prop_get h source key) (next_deep deep) = Some (h2, Inr r) \<longrightarrow>
          prop_get (prop_set h2 target key (VRef (length h))) target key = VRef (length h)
          \<and> type_check (prop_set h2 target key (VRef (length h))) (VRef (length h)) ''object'')
    \<and> ((deep = -1 \<or> 0 < deep) \<and> type_check h source ''object''
         \<and> object_keys h source = key # keys \<longrightarrow>
         deep_merge (Suc n) h target source deep =
           (case deep_merge n (h @ [Obj ObjectProto []]) (VRef (length h))
                   (prop_get h source key) (next_deep deep) of
              None \<Rightarrow> None
            | Some (h2, Inl e) \<Rightarrow> Some (h2, Inl e)
            | Some (h2, Inr r) \<Rightarrow>
                deep_merge_loop n (prop_set h2 target key (VRef (length h)))
                  target source deep keys)
         \<and> (keys = [] \<longrightarrow>
              (\<forall>h' r. deep_merge (Suc n) h target source deep = Some (h', Inr r) \<longrightarrow>
                 r = target \<and> prop_get h' target key = VRef (length h)
                 \<and> type_check h' (VRef (length h)) ''object'')))
    \<and> (deep = 1 \<and> type_check h source ''object'' \<and> object_keys h source = [key] \<longrightarrow>
         deep_merge (Suc (Suc n)) h target source deep =
           Some (prop_set (h @ [Obj ObjectProto []]) target key (VRef (length h)), Inr target))"
proof -
  let ?h1 = "h @ [Obj ObjectProto []]"
  let ?fresh = "VRef (length h)"
  let ?nested = "deep_merge n ?h1 ?fresh (prop_get h source key) (next_deep deep)"
  let ?rest = "\<lambda>h2. deep_merge_loop n (prop_set h2 target key ?fresh) target source deep keys"
  let ?after = "case ?nested of
         None \<Rightarrow> None
       | Some (h2, Inl e) \<Rightarrow> Some (h2, Inl e)
       | Some (h2, Inr r) \<Rightarrow> ?rest h2"
  have mt: "merge_target h target key = (?h1, ?fresh)"
    using falsy by (simp add: merge_target_def alloc_empty_def)
  have rd: "prop_get ?h1 source key = prop_get h source key"
    using own by (rule prop_get_append)
  have fresh_ret: "r = ?fresh" if "?nested = Some (h2, Inr r)" for h2 r
    using deep_merge_returns_target(1) that by blast
  have step: "deep_merge_loop n h target source deep (key # keys) =
      (case ?nested of
         None \<Rightarrow> None
       | Some (h2, Inl e) \<Rightarrow> Some (h2, Inl e)
       | Some (h2, Inr r) \<Rightarrow>
           deep_merge_loop n (prop_set h2 target key r) target source deep keys)"
    using own obj arr by (simp add: mt rd)
  have loop: "deep_merge_loop n h target source deep (key # keys) = ?after"
    unfolding step
  proof (cases ?nested)
    case None
    then show "(case ?nested of
         None \<Rightarrow> None
       | Some (h2, Inl e) \<Rightarrow> Some (h2, Inl e)
       | Some (h2, Inr r) \<Rightarrow>
           deep_merge_loop n (prop_set h2 target key r) target source deep keys) = ?after"
      by simp
  next
    case (Some p)
    obtain h2 res where p: "p = (h2, res)" by (cases p)
    show "(case ?nested of
         None \<Rightarrow> None
       | Some (h2, Inl e) \<Rightarrow> Some (h2, Inl e)
       | Some (h2, Inr r) \<Rightarrow>
           deep_merge_loop n (prop_set h2 target key r) target source deep keys) = ?after"
    proof (cases res)
      case (Inl e)
      with Some p show ?thesis by simp
    next
      case (Inr r)
      with Some p fresh_ret have "r = ?fresh" by simp
      with Inr Some p show ?thesis by simp
    qed
  qed
  have written: "prop_get (prop_set h2 target key ?fresh) target key = ?fresh
      \<and> type_check (prop_set h2 target key ?fresh) ?fresh ''object''"
    if run: "?nested = Some (h2, Inr r)" for h2 r
  proof -
    from deep_merge_keeps(1) run have ext: "heap_extends ?h1 h2"
      by blast
    have "type_check ?h1 target ''object''"
      using tgt by (rule type_check_append)
    with ext have t2: "type_check h2 target ''object''"
      by (simp add: heap_extends_def)
    have "type_check ?h1 ?fresh ''object''"
      by (simp add: type_check_def cell_at_def)
    with ext have "type_check h2 ?fresh ''object''"
      by (simp add: heap_extends_def)
    then have "type_check (prop_set h2 target key ?fresh) ?fresh ''object''"
      by (simp add: type_check_prop_set)
    with t2 show ?thesis
      by (simp add: prop_get_prop_set)
  qed
  have call: "deep_merge (Suc n) h target source deep = ?after"
    if "deep = -1 \<or> 0 < deep" and "type_check h source ''object''"
      and "object_keys h source = key # keys"
  proof -
    from that tgt have "deep_merge (Suc n) h target source deep =
        deep_merge_loop n h target source deep (key # keys)"
      by (auto simp del: deep_merge_loop.simps)
    with loop show ?thesis by simp
  qed
  have single: "r = target \<and> prop_get h' target key = ?fresh \<and> type_check h' ?fresh ''object''"
    if "deep = -1 \<or> 0 < deep" and "type_check h source ''object''"
      and "object_keys h source = key # keys"
      and nil: "keys = []" and run: "deep_merge (Suc n) h target source deep = Some (h', Inr r)"
    for h' r
  proof -
    from run [unfolded call [OF that(1-3)]] have run': "?after = Some (h', Inr r)" .
    show ?thesis
    proof (cases ?nested)
      case None
      with run' show ?thesis by simp
    next
      case (Some p)
      obtain h2 res where p: "p = (h2, res)" by (cases p)
      show ?thesis
      proof (cases res)
        case (Inl e)
        with Some p run' show ?thesis by simp
      next
        case (Inr r2)
        with Some p run' nil
        have "h' = prop_set h2 target key ?fresh" "r = target"
          by auto
        with written [of h2 r2] Some p Inr show ?thesis by simp
      qed
    qed
  qed
  have exhausted: "deep_merge (Suc (Suc n)) h target source deep =
      Some (prop_set ?h1 target key ?fresh, Inr target)"
    if "deep = 1" and "type_check h source ''object''" and "object_keys h source = [key]"
    using that tgt own obj arr by (simp add: mt rd next_deep_def)
  from loop written call single exhausted show ?thesis by blast
qed

theorem deep_merge_falsy_target_witness:
  "type_check falsy_heap (VRef 3) ''object''
   \<and> has_own falsy_heap (VRef 4) ''a''
   \<and> type_check falsy_heap (prop_get falsy_heap (VRef 4) ''a'') ''object''
   \<and> \<not> is_array falsy_heap (prop_get falsy_heap (VRef 4) ''a'')
   \<and> prop_get falsy_heap (VRef 3) ''a'' = VNum 0
   \<and> \<not> truthy (prop_get falsy_heap (VRef 3) ''a'')
   \<and> ((3::int) = -1 \<or> (0::int) < 3)
   \<and> type_check falsy_heap (VRef 4) ''object''
   \<and> object_keys falsy_heap (VRef 4) = [''a'']
   \<and> deep_merge (Suc 1) falsy_heap (VRef 3) (VRef 4) 3 =
       Some ([Obj NullProto [], Arr [], Obj ObjectProto [],
              Obj ObjectProto [(''a'', VRef 6)], Obj ObjectProto [(''a'', VRef 5)],
              Obj ObjectProto [(''x'', VNum 1)], Obj ObjectProto [(''x'', VNum 1)]],
             Inr (VRef 3))
   \<and> prop_get [Obj NullProto [], Arr [], Obj ObjectProto [],
              Obj ObjectProto [(''a'', VRef 6)], Obj ObjectProto [(''a'', VRef 5)],
              Obj ObjectProto [(''x'', VNum 1)], Obj ObjectProto [(''x'', VNum 1)]]
        (VRef 3) ''a'' = VRef (length falsy_heap)
   \<and> type_check [Obj NullProto [], Arr [], Obj ObjectProto [],
              Obj ObjectProto [(''a'', VRef 6)], Obj ObjectProto [(''a'', VRef 5)],
              Obj ObjectProto [(''x'', VNum 1)], Obj ObjectProto [(''x'', VNum 1)]]
        (VRef (length falsy_heap)) ''object''
   \<and> length falsy_heap = 6
   \<and> (1::int) = 1
   \<and> deep_merge (Suc (Suc 0)) falsy_heap (VRef 3) (VRef 4) 1 =
       Some (prop_set (falsy_heap @ [Obj ObjectProto []]) (VRef 3) ''a''
               (VRef (length falsy_heap)), Inr (VRef 3))
   \<and> deep_merge (Suc 1) falsy_heap (VRef 3) (VRef 4) 1 =
       Some ([Obj NullProto [], Arr [], Obj ObjectProto [],
              Obj ObjectProto [(''a'', VRef 6)], Obj ObjectProto [(''a'', VRef 5)],
              Obj ObjectProto [(''x'', VNum 1)], Obj ObjectProto []],
             Inr (VRef 3))"
proof -
  have depth: "(3::int) = -1 \<or> (0::int) < 3"
    by simp
  have tgt: "type_check falsy_heap (VRef 3) ''object''"
    by code_simp
  have src: "type_check falsy_heap (VRef 4) ''object''"
    by code_simp
  have own: "has_own falsy_heap (VRef 4) ''a''"
    by code_simp
  have keys: "object_keys falsy_heap (VRef 4) = [''a'']"
    by code_simp
  have obj: "type_check falsy_heap (prop_get falsy_heap (VRef 4) ''a'') ''object''"
    by code_simp
  have arr: "\<not> is_array falsy_heap (prop_get falsy_heap (VRef 4) ''a'')"
    by code_simp
  have old: "prop_get falsy_heap (VRef 3) ''a'' = VNum 0"
    by code_simp
  have falsy: "\<not> truthy (prop_get falsy_heap (VRef 3) ''a'')"
    by code_simp
  have len: "length falsy_heap = 6"
    by (simp add: falsy_heap_def init_heap_def)
  have three: "deep_merge (Suc 1) falsy_heap (VRef 3) (VRef 4) 3 =
       Some ([Obj NullProto [], Arr [], Obj ObjectProto [],
              Obj ObjectProto [(''a'', VRef 6)], Obj ObjectProto [(''a'', VRef 5)],
              Obj ObjectProto [(''x'', VNum 1)], Obj ObjectProto [(''x'', VNum 1)]],
             Inr (VRef 3))"
    by code_simp
  have one: "deep_merge (Suc 1) falsy_heap (VRef 3) (VRef 4) 1 =
       Some ([Obj NullProto [], Arr [], Obj ObjectProto [],
              Obj ObjectProto [(''a'', VRef 6)], Obj ObjectProto [(''a'', VRef 5)],
              Obj ObjectProto [(''x'', VNum 1)], Obj ObjectProto []],
             Inr (VRef 3))"
    by code_simp
  from deep_merge_falsy_target [where n = 1 and deep = 3 and keys = "[]",
      OF tgt own obj arr falsy] depth src keys three
  have after: "prop_get [Obj NullProto [], Arr [], Obj ObjectProto [],
              Obj ObjectProto [(''a'', VRef 6)], Obj ObjectProto [(''a'', VRef 5)],
              Obj ObjectProto [(''x'', VNum 1)], Obj ObjectProto [(''x'', VNum 1)]]
        (VRef 3) ''a'' = VRef (length falsy_heap)
     \<and> type_check [Obj NullProto [], Arr [], Obj ObjectProto [],
              Obj ObjectProto [(''a'', VRef 6)], Obj ObjectProto [(''a'', VRef 5)],
              Obj ObjectProto [(''x'', VNum 1)], Obj ObjectProto [(''x'', VNum 1)]]
        (VRef (length falsy_heap)) ''object''"
    by blast
  have unit: "(1::int) = 1"
    by simp
  from deep_merge_falsy_target [where n = 0 and deep = 1 and keys = "[]",
      OF tgt own obj arr falsy] unit src keys
  have used_up: "deep_merge (Suc (Suc 0)) falsy_heap (VRef 3) (VRef 4) 1 =
       Some (prop_set (falsy_heap @ [Obj ObjectProto []]) (VRef 3) ''a''
               (VRef (length falsy_heap)), Inr (VRef 3))"
    by blast
  show ?thesis
    using depth tgt src own keys obj arr old falsy three after len unit used_up one by blast
qed


subsection \<open>Errors and the order of the checks\<close>

text \<open>
  The claim C8 as the spec states it, that an operation which raises has written nothing,
  fails for \<open>deep_merge\<close>: merging \<open>{a: 1, b: {x: 1}}\<close> into \<open>{a: 0, b: 5}\<close> writes \<open>a\<close>,
  then descends with the number 5 as nested target, and that recursive call raises.
\<close>

theorem deep_merge_partial_write_counterexample:
  "deep_merge 2 partial_heap (VRef 3) (VRef 4) (-1) =
     Some ([Obj NullProto [], Arr [], Obj ObjectProto [],
            Obj ObjectProto [(''a'', VNum 1), (''b'', VNum 5)],
            Obj ObjectProto [(''a'', VNum 1), (''b'', VRef 5)],
            Obj ObjectProto [(''x'', VNum 1)]],
           Inl (TypeError ''Both target and source must be objects.''))
   \<and> prop_get partial_heap (VRef 3) ''a'' = VNum 0"
  by code_simp

text \<open>
  Claim C8, amended: \<open>shallow_merge\<close>, \<open>purification\<close> and \<open>cut_default\<close> raise only from the
  check of their arguments at entry, so an error of theirs leaves the heap as it was; the
  check of \<open>source\<close> at the entry of \<open>from_object\<close> and the check of \<open>target\<close> and \<open>source\<close>
  at the entry of \<open>deep_merge\<close> (once the depth lets the call in) raise before any write as
  well. \<open>deep_merge\<close> checks the nested target of each recursive call inside its merge loop,
  after the keys before it have been written.
\<close>

theorem type_error_before_write:
  "(shallow_merge h target source = (h1, Inl e1) \<longrightarrow> h1 = h)
   \<and> (purification n h source deep = Some (h2, Inl e2) \<longrightarrow> h2 = h)
   \<and> (cut_default n h source deep = Some (h3, Inl e3) \<longrightarrow> h3 = h)
   \<and> (\<not> type_check h source ''object'' \<longrightarrow>
        from_object h source properties = (h, Inl (TypeError ''Source must be an object.'')))
   \<and> (\<not> (deep \<le> 0 \<and> deep \<noteq> -1)
        \<and> \<not> (type_check h target ''object'' \<and> type_check h source ''object'') \<longrightarrow>
        deep_merge (Suc n) h target source deep =
          Some (h, Inl (TypeError ''Both target and source must be objects.'')))"
  using purification_error(1) [of n h source deep] cut_default_error(1) [of n h source deep]
  by (simp add: shallow_merge_def from_object_def split: if_splits)

theorem type_error_before_write_witness:
  "shallow_merge init_heap (VNum 5) (VNum 5) =
     (init_heap, Inl (TypeError ''Both target and source must be objects.''))
   \<and> purification 1 init_heap (VNum 5) (-1) =
       Some (init_heap, Inl (TypeError ''Source must be an object.''))
   \<and> cut_default 1 init_heap (VNum 5) (-1) =
       Some (init_heap, Inl (TypeError ''Source must be an object.''))
   \<and> \<not> type_check init_heap (VNum 5) ''object''
   \<and> from_object init_heap (VNum 5) [VStr ''a''] =
       (init_heap, Inl (TypeError ''Source must be an object.''))
   \<and> \<not> ((-1::int) \<le> 0 \<and> (-1::int) \<noteq> -1)
   \<and> \<not> (type_check init_heap (VNum 5) ''object'' \<and> type_check init_heap (VNum 5) ''object'')
   \<and> deep_merge (Suc 0) init_heap (VNum 5) (VNum 5) (-1) =
       Some (init_heap, Inl (TypeError ''Both target and source must be objects.''))"
proof -
  have chk: "\<not> type_check init_heap (VNum 5) ''object''"
    by (simp add: type_check_def)
  have sm: "shallow_merge init_heap (VNum 5) (VNum 5) =
     (init_heap, Inl (TypeError ''Both target and source must be objects.''))"
    by (simp add: shallow_merge_def chk)
  have pu: "purification 1 init_heap (VNum 5) (-1) =
       Some (init_heap, Inl (TypeError ''Source must be an object.''))"
    by (simp add: chk)
  have cu: "cut_default 1 init_heap (VNum 5) (-1) =
       Some (init_heap, Inl (TypeError ''Source must be an object.''))"
    by (simp add: chk)
  from type_error_before_write [of init_heap "VNum 5" "VNum 5" init_heap
      "TypeError ''Both target and source must be objects.''" 1 "-1" init_heap
      "TypeError ''Source must be an object.''" init_heap
      "TypeError ''Source must be an object.''" "[VStr ''a'']"]
  show ?thesis using chk sm pu cu by simp
qed

text \<open>
  Claim C10: \<open>cut_default\<close> checks that its argument is a keyed container before it looks at
  the depth, so \<open>cut_default(x, 0)\<close> raises TypeError for every \<open>x\<close> that is not one;
  \<open>purification\<close> looks at the depth first, so \<open>purification(x, 0)\<close> returns \<open>x\<close> for every
  \<open>x\<close> and leaves the heap as it was.
\<close>

theorem cut_default_checks_before_depth:
  "(\<not> type_check h x ''object'' \<longrightarrow>
      cut_default (Suc n) h x 0 = Some (h, Inl (TypeError ''Source must be an object.'')))
   \<and> purification (Suc n) h y 0 = Some (h, Inr y)"
  by simp

theorem cut_default_checks_before_depth_witness:
  "\<not> type_check init_heap (VStr ''x'') ''object''
   \<and> cut_default (Suc 0) init_heap (VStr ''x'') 0 =
       Some (init_heap, Inl (TypeError ''Source must be an object.''))
   \<and> purification (Suc 0) init_heap (VStr ''x'') 0 = Some (init_heap, Inr (VStr ''x''))"
proof -
  have chk: "\<not> type_check init_heap (VStr ''x'') ''object''"
    by (simp add: type_check_def)
  from cut_default_checks_before_depth [of init_heap "VStr ''x''" 0 "VStr ''x''"] chk
  show ?thesis by simp
qed

end
